theory Spec2Isabelle
  imports Complex_Main
begin

section \<open>Numbers and JavaScript primitives\<close>

text \<open>
  The storefront computes with JavaScript numbers. They are modelled as exact rationals:
  the model follows every arithmetic step of the source, without the binary rounding of
  IEEE doubles and without \<open>NaN\<close> and the infinities. An absent (\<open>undefined\<close>)
  field is \<open>None\<close>. The formatted strings that \<open>toFixed\<close> returns are modelled by
  the number they denote.
\<close>

text \<open>\<open>Math.round\<close>: the nearest integer, a tie going up.\<close>

definition Math_round :: "rat \<Rightarrow> rat" where
  "Math_round x = of_int \<lfloor>x + 1 / 2\<rfloor>"

text \<open>
  \<open>x.toFixed(d)\<close>: the decimal with \<open>d\<close> fraction digits nearest to \<open>x\<close>; the sign is
  split off first and a tie takes the larger magnitude.
\<close>

definition toFixed :: "nat \<Rightarrow> rat \<Rightarrow> rat" where
  "toFixed d x =
     (if x < 0 then - (of_int \<lfloor>(- x) * 10 ^ d + 1 / 2\<rfloor> / 10 ^ d)
      else of_int \<lfloor>x * 10 ^ d + 1 / 2\<rfloor> / 10 ^ d)"

text \<open>Truthiness of a numeric field, and \<open>a || b\<close> on numeric fields.\<close>

definition truthy :: "rat option \<Rightarrow> bool" where
  "truthy v = (case v of None \<Rightarrow> False | Some x \<Rightarrow> x \<noteq> 0)"

definition or_else :: "rat option \<Rightarrow> rat option \<Rightarrow> rat option" where
  "or_else a b = (if truthy a then a else b)"

text \<open>\<open>v || k\<close> with a numeric constant \<open>k\<close> as the last alternative.\<close>

definition num_or :: "rat option \<Rightarrow> rat \<Rightarrow> rat" where
  "num_or v k = (case v of None \<Rightarrow> k | Some x \<Rightarrow> if x = 0 then k else x)"

text \<open>
  \<open>parseFloat(v) || k\<close> on a numeric or absent field: \<open>parseFloat(undefined)\<close> is
  \<open>NaN\<close>, which is falsy, as is \<open>0\<close>.
\<close>

definition parseFloat_or :: "rat option \<Rightarrow> rat \<Rightarrow> rat" where
  "parseFloat_or v k = num_or v k"

text \<open>Truthiness of a string field, and \<open>a || b\<close> on string fields.\<close>

definition struthy :: "string option \<Rightarrow> bool" where
  "struthy v = (case v of None \<Rightarrow> False | Some s \<Rightarrow> s \<noteq> [])"

definition sor_else :: "string option \<Rightarrow> string option \<Rightarrow> string option" where
  "sor_else a b = (if struthy a then a else b)"

definition sor_str :: "string option \<Rightarrow> string \<Rightarrow> string" where
  "sor_str v k = (case v of None \<Rightarrow> k | Some s \<Rightarrow> if s = [] then k else s)"

text \<open>\<open>String(n)\<close> for a non-negative integer: its decimal digits.\<close>

definition digit_char :: "nat \<Rightarrow> char" where
  "digit_char d = ''0123456789'' ! d"

fun string_of_nat :: "nat \<Rightarrow> string" where
  "string_of_nat n =
     (if n \<ge> 10 then string_of_nat (n div 10) @ [digit_char (n mod 10)] else [digit_char n])"

declare string_of_nat.simps [simp del]

text \<open>\<open>s.padStart(n, '0')\<close> and \<open>s.slice(-n)\<close>.\<close>

definition padStart0 :: "nat \<Rightarrow> string \<Rightarrow> string" where
  "padStart0 n s = replicate (n - length s) (CHR ''0'') @ s"

definition slice_last :: "nat \<Rightarrow> string \<Rightarrow> string" where
  "slice_last n s = drop (length s - n) s"

section \<open>Checkout totals (CheckoutPage)\<close>

record line_item =
  price :: rat
  quantity :: nat

text \<open>\<open>GST_RATES\<close>: CGST 2.5, SGST 2.5.\<close>

definition GST_RATES_CGST :: rat where
  "GST_RATES_CGST = 5 / 2"

definition GST_RATES_SGST :: rat where
  "GST_RATES_SGST = 5 / 2"

text \<open>\<open>calculateSubtotal\<close>: the reduce over the cart items, starting from 0.\<close>

definition calculateSubtotal :: "('a line_item_scheme) list \<Rightarrow> rat" where
  "calculateSubtotal its = foldl (\<lambda>total item. total + price item * of_nat (quantity item)) 0 its"

record gst_calculation =
  cgst :: rat
  sgst :: rat
  totalGST :: rat

definition calculateGST :: "rat \<Rightarrow> gst_calculation" where
  "calculateGST subtotal =
     (let c = (subtotal * GST_RATES_CGST) / 100;
          s = (subtotal * GST_RATES_SGST) / 100;
          t = c + s
      in \<lparr> cgst = Math_round (c * 100) / 100,
           sgst = Math_round (s * 100) / 100,
           totalGST = Math_round (t * 100) / 100 \<rparr>)"

text \<open>The four constants the component derives from the cart on every render.\<close>

record checkout_totals =
  ct_subtotal :: rat
  ct_gstCalculation :: gst_calculation
  ct_shipping :: rat
  ct_total :: rat

definition checkout_totals :: "('a line_item_scheme) list \<Rightarrow> checkout_totals" where
  "checkout_totals its =
     (let subtotal = calculateSubtotal its;
          gstCalculation = calculateGST subtotal;
          shipping = (if subtotal \<ge> 500 then 0 else 50);
          total = subtotal + totalGST gstCalculation + shipping
      in \<lparr> ct_subtotal = subtotal, ct_gstCalculation = gstCalculation,
           ct_shipping = shipping, ct_total = total \<rparr>)"

section \<open>Tax ledger of an order (Orders page)\<close>

text \<open>
  An order item as the orders API returns it. \<open>gst\<close> and \<open>gstAmount\<close> are the two accepted
  shapes of the stored per-unit tax amount; the fields of the populated \<open>product\<close> are
  flattened with the prefix \<open>product_\<close>.
\<close>

record order_item = line_item +
  basePrice :: "rat option"
  gst :: "rat option"
  gstAmount :: "rat option"
  gstRate :: "rat option"
  hsn :: "string option"
  product_gstRate :: "rat option"
  product_gst :: "rat option"
  product_hsn :: "string option"
  product_hsnCode :: "string option"

text \<open>
  The object \<open>getIndividualProductGST\<close> returns. Its fields \<open>basePrice\<close>, \<open>gstRate\<close>,
  \<open>gstAmountPerUnit\<close>, \<open>totalGstAmount\<close>, \<open>cgstAmount\<close>, \<open>sgstAmount\<close>,
  \<open>totalAmount\<close> and \<open>hsn\<close> carry the prefix \<open>out_\<close> here, the names without prefix
  being the item's stored fields.
\<close>

record product_gst =
  out_basePrice :: rat
  out_gstRate :: rat
  out_gstAmountPerUnit :: rat
  out_totalGstAmount :: rat
  out_cgstAmount :: rat
  out_sgstAmount :: rat
  out_totalAmount :: rat
  out_hsn :: string

text \<open>The guard of "Method 1": stored tax information is present on the item.\<close>

definition defined :: "'a option \<Rightarrow> bool" where
  "defined v = (case v of None \<Rightarrow> False | Some _ \<Rightarrow> True)"

definition has_stored_gst :: "order_item \<Rightarrow> bool" where
  "has_stored_gst item =
     ((defined (basePrice item) \<or> defined (gst item)) \<and> (defined (gst item) \<or> defined (gstAmount item)))"

text \<open>\<open>item.hsn || item.product?.hsn || item.product?.hsnCode || '1234'\<close>.\<close>

definition item_hsn :: "order_item \<Rightarrow> string" where
  "item_hsn item = sor_str (sor_else (hsn item) (sor_else (product_hsn item) (product_hsnCode item))) ''1234''"

text \<open>
  \<open>getIndividualProductGST\<close>. In "Method 2" the divisor \<open>1 + productGstRate / 100\<close> is zero
  only for a stored rate of \<open>-100\<close>, where JavaScript yields an infinity and HOL's division
  yields 0; no statement below is about that rate.
\<close>

definition getIndividualProductGST :: "order_item \<Rightarrow> product_gst" where
  "getIndividualProductGST item =
     (if has_stored_gst item then
        (let gstAmountPerUnit = parseFloat_or (or_else (gst item) (gstAmount item)) 0;
             basePrice0 = parseFloat_or (basePrice item) 0;
             basePrice1 = (if basePrice0 = 0 \<and> price item \<noteq> 0 \<and> gstAmountPerUnit > 0
                           then price item - gstAmountPerUnit else basePrice0);
             gstRate1 = (if basePrice1 > 0 \<and> gstAmountPerUnit > 0
                         then (gstAmountPerUnit / basePrice1) * 100
                         else parseFloat_or (gstRate item) 18);
             totalGstAmount = gstAmountPerUnit * of_nat (quantity item);
             cgstAmount = totalGstAmount / 2;
             sgstAmount = totalGstAmount / 2
         in \<lparr> out_basePrice = toFixed 2 basePrice1,
              out_gstRate = toFixed 1 gstRate1,
              out_gstAmountPerUnit = toFixed 2 gstAmountPerUnit,
              out_totalGstAmount = toFixed 2 totalGstAmount,
              out_cgstAmount = toFixed 2 cgstAmount,
              out_sgstAmount = toFixed 2 sgstAmount,
              out_totalAmount = toFixed 2 (price item * of_nat (quantity item)),
              out_hsn = item_hsn item \<rparr>)
      else
        (let totalItemAmount = price item * of_nat (quantity item);
             productGstRate = num_or (or_else (gst item) (or_else (product_gstRate item) (product_gst item))) 18;
             basePrice1 = totalItemAmount / (1 + productGstRate / 100);
             totalGstAmount = totalItemAmount - basePrice1;
             qty1 = (if quantity item = 0 then 1 else of_nat (quantity item));
             gstAmountPerUnit = totalGstAmount / qty1;
             cgstAmount = totalGstAmount / 2;
             sgstAmount = totalGstAmount / 2;
             basePricePerUnit = basePrice1 / qty1;
             calculatedGstRate = (if basePricePerUnit > 0 \<and> gstAmountPerUnit > 0
                                  then (gstAmountPerUnit / basePricePerUnit) * 100
                                  else productGstRate)
         in \<lparr> out_basePrice = toFixed 2 basePrice1,
              out_gstRate = toFixed 1 calculatedGstRate,
              out_gstAmountPerUnit = toFixed 2 gstAmountPerUnit,
              out_totalGstAmount = toFixed 2 totalGstAmount,
              out_cgstAmount = toFixed 2 cgstAmount,
              out_sgstAmount = toFixed 2 sgstAmount,
              out_totalAmount = toFixed 2 totalItemAmount,
              out_hsn = item_hsn item \<rparr>))"

text \<open>
  The fields of an order that the invoice and the tax breakdown read. \<open>items = None\<close>
  stands for an absent \<open>items\<close> field (or one that is not an array).
\<close>

record order_data =
  order_id :: "string option"
  createdAt :: "string option"
  invoiceNumber :: "string option"
  invoiceOrderNumber :: "string option"
  orderNumber :: "nat option"
  formattedOrderNumber :: "string option"
  items :: "order_item list option"
  discount :: "rat option"
  order_gstAmount :: "rat option"
  discountedSubtotal :: "rat option"
  shippingCharge :: "rat option"
  totalAmount :: "rat option"

record gst_breakdown = gst_calculation +
  cgstRate :: rat
  sgstRate :: rat
  totalRate :: rat

text \<open>The accumulators of the \<open>forEach\<close> loop of \<open>calculateGSTBreakdown\<close>.\<close>

record gst_acc =
  totalCGST :: rat
  totalSGST :: rat
  acc_totalGST :: rat
  weightedGSTRate :: rat
  totalBaseAmount :: rat

definition gst_acc_step :: "gst_acc \<Rightarrow> order_item \<Rightarrow> gst_acc" where
  "gst_acc_step acc item =
     (let itemGstData = getIndividualProductGST item;
          itemCGST = out_cgstAmount itemGstData;
          itemSGST = out_sgstAmount itemGstData;
          itemGST = out_totalGstAmount itemGstData;
          itemBasePrice = out_basePrice itemGstData;
          rate = out_gstRate itemGstData;
          qty1 = (if quantity item = 0 then 1 else of_nat (quantity item))
      in \<lparr> totalCGST = totalCGST acc + itemCGST,
           totalSGST = totalSGST acc + itemSGST,
           acc_totalGST = acc_totalGST acc + itemGST,
           weightedGSTRate = weightedGSTRate acc + rate * (itemBasePrice * qty1),
           totalBaseAmount = totalBaseAmount acc + itemBasePrice * qty1 \<rparr>)"

text \<open>
  \<open>calculateGSTBreakdown\<close>. The first branch is taken whenever \<open>items\<close> is an array,
  the empty one included. The guard of the second,
  \<open>orderData?.gstAmount && orderData.gstAmount > 0\<close>, holds exactly when the stored amount
  is present and positive.
\<close>

definition calculateGSTBreakdown :: "order_data \<Rightarrow> rat \<Rightarrow> gst_breakdown" where
  "calculateGSTBreakdown orderData subtotalAfterDiscount =
     (case items orderData of
        Some its \<Rightarrow>
          (let acc = foldl gst_acc_step
                       \<lparr> totalCGST = 0, totalSGST = 0, acc_totalGST = 0,
                         weightedGSTRate = 0, totalBaseAmount = 0 \<rparr> its;
               finalGSTRate = (if totalBaseAmount acc > 0
                               then weightedGSTRate acc / totalBaseAmount acc else 0)
           in \<lparr> cgst = Math_round (totalCGST acc * 100) / 100,
                sgst = Math_round (totalSGST acc * 100) / 100,
                totalGST = Math_round (acc_totalGST acc * 100) / 100,
                cgstRate = finalGSTRate / 2,
                sgstRate = finalGSTRate / 2,
                totalRate = finalGSTRate \<rparr>)
      | None \<Rightarrow>
          (if num_or (order_gstAmount orderData) 0 > 0 then
             (let total = num_or (order_gstAmount orderData) 0;
                  c = total / 2;
                  s = total / 2;
                  taxableAmount = num_or (discountedSubtotal orderData) subtotalAfterDiscount;
                  effectiveRate = (if taxableAmount > 0 then (total / taxableAmount) * 100 else 0)
              in \<lparr> cgst = Math_round (c * 100) / 100,
                   sgst = Math_round (s * 100) / 100,
                   totalGST = Math_round (total * 100) / 100,
                   cgstRate = Math_round ((effectiveRate / 2) * 10) / 10,
                   sgstRate = Math_round ((effectiveRate / 2) * 10) / 10,
                   totalRate = Math_round (effectiveRate * 10) / 10 \<rparr>)
           else
             \<lparr> cgst = 0, sgst = 0, totalGST = 0, cgstRate = 0, sgstRate = 0, totalRate = 0 \<rparr>))"


section \<open>Invoice identity and invoice export (Orders page)\<close>

definition str_val :: "string option \<Rightarrow> string" where
  "str_val v = (case v of None \<Rightarrow> [] | Some s \<Rightarrow> s)"

definition ntruthy :: "nat option \<Rightarrow> bool" where
  "ntruthy v = (case v of None \<Rightarrow> False | Some n \<Rightarrow> n \<noteq> 0)"

definition nat_val :: "nat option \<Rightarrow> nat" where
  "nat_val v = (case v of None \<Rightarrow> 0 | Some n \<Rightarrow> n)"

text \<open>
  \<open>getInvoiceOrderNumber\<close>. The calendar and the clock are parameters: \<open>getFullYear d\<close> is
  the year that \<open>new Date(d).getFullYear()\<close> yields for the stored date \<open>d\<close>, and
  \<open>currentYear\<close> the year of \<open>new Date()\<close>.
\<close>

definition getInvoiceOrderNumber :: "(string \<Rightarrow> nat) \<Rightarrow> nat \<Rightarrow> order_data \<Rightarrow> string" where
  "getInvoiceOrderNumber getFullYear currentYear orderData =
     (if struthy (invoiceNumber orderData) \<and> length (str_val (invoiceNumber orderData)) = 10 then
        str_val (invoiceNumber orderData)
      else if struthy (invoiceOrderNumber orderData) then
        str_val (invoiceOrderNumber orderData)
      else if ntruthy (orderNumber orderData) \<and> struthy (createdAt orderData) then
        (let year = getFullYear (str_val (createdAt orderData));
             paddedOrderNum = padStart0 6 (string_of_nat (nat_val (orderNumber orderData)))
         in string_of_nat year @ paddedOrderNum)
      else if struthy (formattedOrderNumber orderData) \<and> struthy (createdAt orderData) then
        (let year = getFullYear (str_val (createdAt orderData))
         in string_of_nat year @ str_val (formattedOrderNumber orderData))
      else if struthy (createdAt orderData) \<and> struthy (order_id orderData) then
        (let year = getFullYear (str_val (createdAt orderData));
             idSuffix = slice_last 6 (str_val (order_id orderData))
         in string_of_nat year @ idSuffix)
      else
        string_of_nat currentYear @ ''000001'')"

text \<open>A promise either resolves with a value or rejects (the \<open>await\<close> throws).\<close>

datatype 'a outcome = Resolved 'a | Rejected

text \<open>
  The values \<open>generateInvoicePDF\<close> computes and interpolates into the invoice template.
  \<open>inv_number\<close> is the text after "Invoice #:", \<open>inv_rows\<close> the rows of the items table.
\<close>

record invoice =
  inv_number :: string
  inv_orderId :: "string option"
  inv_rows :: "product_gst list"
  inv_itemsSubtotal :: rat
  inv_couponDiscount :: rat
  inv_subtotalAfterDiscount :: rat
  inv_gstBreakdown :: gst_breakdown
  inv_shipping :: rat
  inv_grandTotal :: rat

text \<open>
  \<open>generateInvoicePDF\<close> up to the rendered template. \<open>orderResp\<close> is the outcome of
  fetching the order, \<open>numberResp\<close> that of fetching \<open>orders/next-order-number\<close> (its field
  \<open>nextFormattedOrderNumber\<close>), \<open>currentYear\<close> the year of \<open>new Date()\<close>. A rejected
  order fetch lands in the outer \<open>catch\<close> and renders nothing.
\<close>

definition generateInvoicePDF :: "nat \<Rightarrow> string option outcome \<Rightarrow> order_data outcome \<Rightarrow> invoice option" where
  "generateInvoicePDF currentYear numberResp orderResp =
     (case orderResp of
        Rejected \<Rightarrow> None
      | Resolved orderData \<Rightarrow>
          (let nextFormattedOrderNumber =
                 (case numberResp of
                    Resolved f \<Rightarrow> string_of_nat currentYear @ sor_str f []
                  | Rejected \<Rightarrow> []);
               its = (case items orderData of None \<Rightarrow> [] | Some xs \<Rightarrow> xs);
               itemsSubtotal = calculateSubtotal its;
               couponDiscount = num_or (discount orderData) 0;
               subtotalAfterDiscount = itemsSubtotal - couponDiscount;
               gstBreakdown = calculateGSTBreakdown orderData subtotalAfterDiscount;
               shipping = num_or (shippingCharge orderData)
                            (if subtotalAfterDiscount \<ge> 500 then 0 else 50)
           in Some \<lparr> inv_number = nextFormattedOrderNumber,
                     inv_orderId = order_id orderData,
                     inv_rows = map getIndividualProductGST its,
                     inv_itemsSubtotal = itemsSubtotal,
                     inv_couponDiscount = couponDiscount,
                     inv_subtotalAfterDiscount = subtotalAfterDiscount,
                     inv_gstBreakdown = gstBreakdown,
                     inv_shipping = shipping,
                     inv_grandTotal = toFixed 2 (num_or (totalAmount orderData) 0) \<rparr>))"

text \<open>\<open>convertToWords\<close>, on a non-negative integer amount.\<close>

definition ones :: "string list" where
  "ones = ['''', ''One'', ''Two'', ''Three'', ''Four'', ''Five'', ''Six'', ''Seven'', ''Eight'', ''Nine'']"

definition teens :: "string list" where
  "teens = [''Ten'', ''Eleven'', ''Twelve'', ''Thirteen'', ''Fourteen'', ''Fifteen'', ''Sixteen'',
            ''Seventeen'', ''Eighteen'', ''Nineteen'']"

definition tens :: "string list" where
  "tens = ['''', '''', ''Twenty'', ''Thirty'', ''Forty'', ''Fifty'', ''Sixty'', ''Seventy'', ''Eighty'',
           ''Ninety'']"

function convertToWords :: "nat \<Rightarrow> string" where
  "convertToWords amount =
     (if amount = 0 then ''Zero''
      else if amount < 10 then ones ! amount
      else if amount < 20 then teens ! (amount - 10)
      else if amount < 100 then
        tens ! (amount div 10) @ (if amount mod 10 \<noteq> 0 then '' '' @ ones ! (amount mod 10) else [])
      else if amount < 1000 then
        ones ! (amount div 100) @ '' Hundred''
          @ (if amount mod 100 \<noteq> 0 then '' '' @ convertToWords (amount mod 100) else [])
      else if amount < 100000 then
        convertToWords (amount div 1000) @ '' Thousand''
          @ (if amount mod 1000 \<noteq> 0 then '' '' @ convertToWords (amount mod 1000) else [])
      else ''Amount too large'')"
  by pat_completeness auto
termination
  by (relation "measure (\<lambda>n. n)") auto

declare convertToWords.simps [simp del]

text \<open>The "Amount in Words" block of the invoice, for an integer grand total.\<close>

definition amount_in_words :: "nat \<Rightarrow> string" where
  "amount_in_words amount = convertToWords amount @ '' Rupees Only''"

section \<open>Checkout session (CheckoutPage)\<close>

record cart_item = line_item +
  item_id :: string

text \<open>The registered address of the user and the manually entered one; an absent field is empty.\<close>

record user_address =
  street :: string
  reg_city :: string
  reg_state :: string
  reg_pincode :: string

record user =
  user_address :: "user_address option"

record custom_address =
  address :: string
  city :: string
  state :: string
  pincode :: string

text \<open>
  What the handlers read besides the session: the authenticated user, the address form, the
  selected payment method, the configured gateway key and whether the gateway script is
  loaded (\<open>window.Razorpay\<close>).
\<close>

record checkout_config =
  user :: "user option"
  useRegisteredAddress :: bool
  customAddress :: custom_address
  paymentMethod :: string
  razorpayKey :: "string option"
  razorpayLoaded :: bool

text \<open>The requests sent to the collaborators, in order.\<close>

datatype call = CreateRazorpayOrder rat | OpenWidget | VerifyPayment | CreateOrder

text \<open>The success and error toasts shown.\<close>

datatype notice = ToastSuccess string | ToastError string

text \<open>
  The points where a handler is suspended: at an \<open>await\<close>, or with the gateway widget open
  and its callbacks registered.
\<close>

datatype pending = AwaitGatewayOrder | WidgetOpen | AwaitVerification | AwaitCodOrder

record session =
  cart :: "cart_item list"
  isProcessing :: bool
  route :: "string option"
  notices :: "notice list"
  calls :: "call list"
  pendings :: "pending list"

definition toast :: "notice \<Rightarrow> session \<Rightarrow> session" where
  "toast n s = s\<lparr>notices := notices s @ [n]\<rparr>"

definition navigate :: "string \<Rightarrow> session \<Rightarrow> session" where
  "navigate r s = s\<lparr>route := Some r\<rparr>"

definition setIsProcessing :: "bool \<Rightarrow> session \<Rightarrow> session" where
  "setIsProcessing b s = s\<lparr>isProcessing := b\<rparr>"

definition request :: "call \<Rightarrow> pending \<Rightarrow> session \<Rightarrow> session" where
  "request c p s = s\<lparr>calls := calls s @ [c], pendings := pendings s @ [p]\<rparr>"

text \<open>
  Modelled from the spec: the reducer of the cart context, which handles the
  \<open>CLEAR_CART\<close> action, is not among the sources. The cart is "cleared atomically on
  successful order creation": the action empties the items.
\<close>

definition dispatch_CLEAR_CART :: "session \<Rightarrow> session" where
  "dispatch_CLEAR_CART s = s\<lparr>cart := []\<rparr>"

text \<open>\<open>validateAddress\<close>: the error toast it shows, or \<open>None\<close> when it returns true.\<close>

definition validateAddress_error :: "checkout_config \<Rightarrow> string option" where
  "validateAddress_error cfg =
     (case (if useRegisteredAddress cfg then Option.bind (user cfg) user_address else None) of
        Some a \<Rightarrow>
          (if \<not> (street a \<noteq> [] \<and> reg_city a \<noteq> [] \<and> reg_state a \<noteq> [] \<and> reg_pincode a \<noteq> []) then
             Some ''Please complete your registered address in profile settings''
           else if length (reg_pincode a) \<noteq> 6 then
             Some ''Please enter a valid 6-digit pincode in your profile''
           else None)
      | None \<Rightarrow>
          (let a = customAddress cfg in
           if address a = [] \<or> city a = [] \<or> state a = [] \<or> pincode a = [] then
             Some ''Please fill in all address fields''
           else if length (pincode a) \<noteq> 6 then
             Some ''Please enter a valid 6-digit pincode''
           else None))"

definition validateAddress :: "checkout_config \<Rightarrow> bool" where
  "validateAddress cfg = (validateAddress_error cfg = None)"

text \<open>\<open>razorpayKey && razorpayKey.startsWith('rzp_')\<close>.\<close>

definition valid_razorpayKey :: "string option \<Rightarrow> bool" where
  "valid_razorpayKey k = (struthy k \<and> take 4 (str_val k) = ''rzp_'')"

text \<open>
  \<open>handleProceedToPayment\<close> from its entry to its first \<open>await\<close> (or its return). The
  function does not read \<open>isProcessing\<close>. The cash-on-delivery branch enters
  \<open>handleCODOrder\<close>, which awaits \<open>createOrder\<close>.
\<close>

definition handleProceedToPayment :: "checkout_config \<Rightarrow> session \<Rightarrow> session" where
  "handleProceedToPayment cfg s =
     (case user cfg of
        None \<Rightarrow> toast (ToastError ''Please login to continue'') (navigate ''/login'' s)
      | Some u \<Rightarrow>
          (case validateAddress_error cfg of
             Some msg \<Rightarrow> toast (ToastError msg) s
           | None \<Rightarrow>
               (let s1 = setIsProcessing True s in
                if paymentMethod cfg = ''razorpay'' then
                  (if \<not> valid_razorpayKey (razorpayKey cfg) then
                     setIsProcessing False
                       (toast (ToastError ''Invalid Razorpay configuration. Please contact support.'') s1)
                   else
                     request (CreateRazorpayOrder (ct_total (checkout_totals (cart s)))) AwaitGatewayOrder s1)
                else
                  request CreateOrder AwaitCodOrder s1)))"

text \<open>
  The proceed button: it is rendered only for a non-empty cart and carries
  \<open>disabled={isProcessing}\<close>, so a click reaches the handler only when the flag is clear.
  The flag set by a click is in force before the next event is delivered.
\<close>

definition proceed_click :: "checkout_config \<Rightarrow> session \<Rightarrow> session" where
  "proceed_click cfg s =
     (if cart s = [] then s
      else if isProcessing s then s
      else handleProceedToPayment cfg s)"

text \<open>
  \<open>handleProceedToPayment\<close> resumed with the outcome of \<open>createRazorpayOrder\<close> (the
  \<open>orderId\<close> of the response): a rejection and a missing order id both reach the inner
  \<open>catch\<close>; otherwise the widget is opened with its callbacks.
\<close>

definition after_createRazorpayOrder :: "checkout_config \<Rightarrow> string option outcome \<Rightarrow> session \<Rightarrow> session" where
  "after_createRazorpayOrder cfg r s =
     (case r of
        Rejected \<Rightarrow>
          setIsProcessing False (toast (ToastError ''Failed to initiate payment. Please try again.'') s)
      | Resolved orderId \<Rightarrow>
          (if \<not> struthy orderId then
             setIsProcessing False (toast (ToastError ''Failed to initiate payment. Please try again.'') s)
           else if \<not> razorpayLoaded cfg then
             setIsProcessing False
               (toast (ToastError ''Payment system not loaded. Please refresh and try again.'') s)
           else request OpenWidget WidgetOpen s))"

text \<open>
  The \<open>handler\<close> callback of the widget: it submits the payment for verification and, once
  \<open>verifyPayment\<close> has returned, clears the cart only if the \<open>success\<close> field of the
  response is truthy. The argument is that field, a boolean as the interface of the
  verification service declares it (\<open>None\<close> when the response lacks it), or a rejection.
\<close>

definition handler_start :: "session \<Rightarrow> session" where
  "handler_start s = request VerifyPayment AwaitVerification s"

definition handler_resume :: "bool option outcome \<Rightarrow> session \<Rightarrow> session" where
  "handler_resume r s =
     setIsProcessing False
       (case r of
          Resolved (Some True) \<Rightarrow>
            navigate ''/orders'' (dispatch_CLEAR_CART (toast (ToastSuccess ''Payment successful!'') s))
        | _ \<Rightarrow> toast (ToastError ''Payment verification failed. Please contact support.'') s)"

text \<open>\<open>modal.ondismiss\<close> and the \<open>payment.failed\<close> listener.\<close>

definition ondismiss :: "session \<Rightarrow> session" where
  "ondismiss s = setIsProcessing False s"

definition on_payment_failed :: "string \<Rightarrow> session \<Rightarrow> session" where
  "on_payment_failed description s =
     setIsProcessing False (toast (ToastError (''Payment failed: '' @ description)) s)"

text \<open>\<open>handleCODOrder\<close> resumed with the outcome of \<open>createOrder\<close> (the \<open>_id\<close> of the response).\<close>

definition handleCODOrder_resume :: "string option outcome \<Rightarrow> session \<Rightarrow> session" where
  "handleCODOrder_resume r s =
     setIsProcessing False
       (case r of
          Resolved i \<Rightarrow>
            (if struthy i then
               navigate ''/orders'' (dispatch_CLEAR_CART (toast (ToastSuccess ''Order placed successfully!'') s))
             else toast (ToastError ''Failed to place order. Please try again.'') s)
        | Rejected \<Rightarrow> toast (ToastError ''Failed to place order. Please try again.'') s)"

text \<open>
  The events of a checkout attempt. Each runs one piece of code to completion; an event
  whose continuation is not pending finds no code to run. Editing the cart (changing a
  quantity, removing an item) is not part of the attempt and is not among the events.
\<close>

datatype event =
    ClickProceed
  | GatewayOrderReturned "string option outcome"
  | WidgetSuccess
  | WidgetDismiss
  | WidgetPaymentFailed string
  | VerificationReturned "bool option outcome"
  | CodOrderReturned "string option outcome"

definition resume :: "pending \<Rightarrow> session \<Rightarrow> session" where
  "resume p s = s\<lparr>pendings := remove1 p (pendings s)\<rparr>"

definition step :: "checkout_config \<Rightarrow> event \<Rightarrow> session \<Rightarrow> session" where
  "step cfg e s =
     (case e of
        ClickProceed \<Rightarrow> proceed_click cfg s
      | GatewayOrderReturned r \<Rightarrow>
          (if AwaitGatewayOrder \<in> set (pendings s)
           then after_createRazorpayOrder cfg r (resume AwaitGatewayOrder s) else s)
      | WidgetSuccess \<Rightarrow>
          (if WidgetOpen \<in> set (pendings s) then handler_start (resume WidgetOpen s) else s)
      | WidgetDismiss \<Rightarrow>
          (if WidgetOpen \<in> set (pendings s) then ondismiss (resume WidgetOpen s) else s)
      | WidgetPaymentFailed d \<Rightarrow>
          (if WidgetOpen \<in> set (pendings s) then on_payment_failed d s else s)
      | VerificationReturned r \<Rightarrow>
          (if AwaitVerification \<in> set (pendings s)
           then handler_resume r (resume AwaitVerification s) else s)
      | CodOrderReturned r \<Rightarrow>
          (if AwaitCodOrder \<in> set (pendings s)
           then handleCODOrder_resume r (resume AwaitCodOrder s) else s))"

definition run :: "checkout_config \<Rightarrow> event list \<Rightarrow> session \<Rightarrow> session" where
  "run cfg es s = foldl (\<lambda>s e. step cfg e s) s es"

text \<open>The events that confirm settlement: a verified payment, or a created cash-on-delivery order.\<close>

definition confirms :: "event \<Rightarrow> bool" where
  "confirms e =
     (case e of
        VerificationReturned r \<Rightarrow> r = Resolved (Some True)
      | CodOrderReturned r \<Rightarrow> (case r of Resolved i \<Rightarrow> struthy i | Rejected \<Rightarrow> False)
      | _ \<Rightarrow> False)"

text \<open>The number of gateway orders requested so far.\<close>

definition gateway_orders :: "session \<Rightarrow> nat" where
  "gateway_orders s = length (filter (\<lambda>c. case c of CreateRazorpayOrder _ \<Rightarrow> True | _ \<Rightarrow> False) (calls s))"

text \<open>
  An event settles the checkout when it confirms settlement and the handler waiting for it
  is pending.
\<close>

definition settles :: "event \<Rightarrow> session \<Rightarrow> bool" where
  "settles e s =
     (confirms e \<and>
      (case e of
         VerificationReturned _ \<Rightarrow> AwaitVerification \<in> set (pendings s)
       | CodOrderReturned _ \<Rightarrow> AwaitCodOrder \<in> set (pendings s)
       | _ \<Rightarrow> False))"

text \<open>
  A click on the proceed button reaches the gateway when the cart is non-empty, the flag is
  clear, a user is logged in, the address is valid, the online method is selected and the
  gateway key is well-formed.
\<close>

definition reaches_gateway :: "checkout_config \<Rightarrow> session \<Rightarrow> bool" where
  "reaches_gateway cfg s =
     (cart s \<noteq> [] \<and> \<not> isProcessing s \<and> defined (user cfg) \<and> validateAddress cfg
      \<and> paymentMethod cfg = ''razorpay'' \<and> valid_razorpayKey (razorpayKey cfg))"

section \<open>The invoice-number precedence as the specification words it\<close>

text \<open>
  The specification gives the precedence as a ranked chain of strategies, each yielding a
  result or "not applicable", the first available one winning. These definitions follow
  its words; they are compared with \<open>getInvoiceOrderNumber\<close> below.
\<close>

definition stored_invoice_number :: "order_data \<Rightarrow> string option" where
  "stored_invoice_number orderData =
     (case invoiceNumber orderData of
        Some s \<Rightarrow> if length s = 10 then Some s else None
      | None \<Rightarrow> None)"

definition virtual_invoice_number :: "order_data \<Rightarrow> string option" where
  "virtual_invoice_number orderData =
     (case invoiceOrderNumber orderData of
        Some v \<Rightarrow> if v = [] then None else Some v
      | None \<Rightarrow> None)"

definition year_and_sequential_number :: "(string \<Rightarrow> nat) \<Rightarrow> order_data \<Rightarrow> string option" where
  "year_and_sequential_number getFullYear orderData =
     (case (orderNumber orderData, createdAt orderData) of
        (Some n, Some d) \<Rightarrow>
          if n = 0 \<or> d = [] then None
          else Some (string_of_nat (getFullYear d) @ padStart0 6 (string_of_nat n))
      | _ \<Rightarrow> None)"

definition year_and_formatted_number :: "(string \<Rightarrow> nat) \<Rightarrow> order_data \<Rightarrow> string option" where
  "year_and_formatted_number getFullYear orderData =
     (case (formattedOrderNumber orderData, createdAt orderData) of
        (Some f, Some d) \<Rightarrow>
          if f = [] \<or> d = [] then None else Some (string_of_nat (getFullYear d) @ f)
      | _ \<Rightarrow> None)"

definition year_and_id_suffix :: "(string \<Rightarrow> nat) \<Rightarrow> order_data \<Rightarrow> string option" where
  "year_and_id_suffix getFullYear orderData =
     (case (createdAt orderData, order_id orderData) of
        (Some d, Some i) \<Rightarrow>
          if d = [] \<or> i = [] then None else Some (string_of_nat (getFullYear d) @ slice_last 6 i)
      | _ \<Rightarrow> None)"

fun first_available :: "'a option list \<Rightarrow> 'a \<Rightarrow> 'a" where
  "first_available [] fallback = fallback"
| "first_available (Some x # rest) fallback = x"
| "first_available (None # rest) fallback = first_available rest fallback"

definition deriveInvoiceNumber :: "(string \<Rightarrow> nat) \<Rightarrow> nat \<Rightarrow> order_data \<Rightarrow> string" where
  "deriveInvoiceNumber getFullYear currentYear orderData =
     first_available
       [stored_invoice_number orderData,
        virtual_invoice_number orderData,
        year_and_sequential_number getFullYear orderData,
        year_and_formatted_number getFullYear orderData,
        year_and_id_suffix getFullYear orderData]
       (string_of_nat currentYear @ ''000001'')"

section \<open>Reading number words\<close>

text \<open>
  The number that a phrase of English number words denotes, to state what
  \<open>convertToWords\<close> returns: the phrase is cut at its spaces and read left to right,
  "Hundred" multiplying the current group and "Thousand" closing it.
\<close>

definition word_values :: "(string \<times> nat) list" where
  "word_values =
     [(''Zero'', 0), (''One'', 1), (''Two'', 2), (''Three'', 3), (''Four'', 4), (''Five'', 5),
      (''Six'', 6), (''Seven'', 7), (''Eight'', 8), (''Nine'', 9), (''Ten'', 10), (''Eleven'', 11),
      (''Twelve'', 12), (''Thirteen'', 13), (''Fourteen'', 14), (''Fifteen'', 15), (''Sixteen'', 16),
      (''Seventeen'', 17), (''Eighteen'', 18), (''Nineteen'', 19), (''Twenty'', 20), (''Thirty'', 30),
      (''Forty'', 40), (''Fifty'', 50), (''Sixty'', 60), (''Seventy'', 70), (''Eighty'', 80),
      (''Ninety'', 90)]"

fun read_words :: "nat \<Rightarrow> nat \<Rightarrow> string list \<Rightarrow> nat option" where
  "read_words done_part cur [] = Some (done_part + cur)"
| "read_words done_part cur (w # ws) =
     (if w = ''Hundred'' then read_words done_part (cur * 100) ws
      else if w = ''Thousand'' then read_words (done_part + cur * 1000) 0 ws
      else (case map_of word_values w of
              Some v \<Rightarrow> read_words done_part (cur + v) ws
            | None \<Rightarrow> None))"

fun split_words :: "string \<Rightarrow> string list" where
  "split_words [] = [[]]"
| "split_words (c # cs) =
     (if c = CHR '' '' then [] # split_words cs
      else (case split_words cs of w # ws \<Rightarrow> (c # w) # ws | [] \<Rightarrow> [[c]]))"

definition words_value :: "string \<Rightarrow> nat option" where
  "words_value s = read_words 0 0 (split_words s)"

text \<open>The words of an amount, group by group, and their joining with single spaces.\<close>

definition small_words :: "nat \<Rightarrow> string list" where
  "small_words n =
     (if n < 10 then [ones ! n]
      else if n < 20 then [teens ! (n - 10)]
      else tens ! (n div 10) # (if n mod 10 \<noteq> 0 then [ones ! (n mod 10)] else []))"

definition hundred_words :: "nat \<Rightarrow> string list" where
  "hundred_words n =
     (if n < 100 then small_words n
      else ones ! (n div 100) # ''Hundred'' # (if n mod 100 \<noteq> 0 then small_words (n mod 100) else []))"

definition amount_words :: "nat \<Rightarrow> string list" where
  "amount_words n =
     (if n < 1000 then hundred_words n
      else small_words (n div 1000) @ ''Thousand''
             # (if n mod 1000 \<noteq> 0 then hundred_words (n mod 1000) else []))"

fun join_words :: "string list \<Rightarrow> string" where
  "join_words [] = []"
| "join_words [w] = w"
| "join_words (w # v # ws) = w @ '' '' @ join_words (v # ws)"

section \<open>Example inputs\<close>




text \<open>An item with no stored tax fields, priced 118, once and twice.\<close>

definition item_plain :: "nat \<Rightarrow> order_item" where
  "item_plain q = \<lparr>price = 118, quantity = q, basePrice = None, gst = None,
     gstAmount = None, gstRate = None, hsn = None, product_gstRate = None, product_gst = None,
     product_hsn = None, product_hsnCode = None\<rparr>"


text \<open>
  A stored order of one plain item with a 10-character invoice number and a sequential
  order number; variants of it are made by record update.
\<close>

definition order_stored :: order_data where
  "order_stored = \<lparr>order_id = Some ''64f1c2ab9d3e7a0012345678'', createdAt = Some ''2024-03-05T10:15:00Z'',
     invoiceNumber = Some ''2024000017'', invoiceOrderNumber = Some ''INV-17'', orderNumber = Some 17,
     formattedOrderNumber = Some ''000017'', items = Some [item_plain 1], discount = None,
     order_gstAmount = Some 18, discountedSubtotal = None, shippingCharge = Some 50,
     totalAmount = Some 168\<rparr>"


text \<open>The year of an ISO date, for the examples: every stored date above is of 2024.\<close>

definition year_2024 :: "string \<Rightarrow> nat" where
  "year_2024 d = 2024"



text \<open>
  The stored order with its identity fields removed one after the other, so that each
  method of the invoice-number precedence is the first available one in turn.
\<close>

definition order_long_number :: order_data where
  "order_long_number = order_stored\<lparr>invoiceNumber := Some ''INV-2024-17''\<rparr>"

definition order_sequential :: order_data where
  "order_sequential = order_stored\<lparr>invoiceNumber := None, invoiceOrderNumber := None\<rparr>"

definition order_formatted :: order_data where
  "order_formatted = order_sequential\<lparr>orderNumber := None, formattedOrderNumber := Some ''A17''\<rparr>"

definition order_id_only :: order_data where
  "order_id_only = order_sequential\<lparr>orderNumber := None, formattedOrderNumber := None\<rparr>"

definition order_bare :: order_data where
  "order_bare = order_id_only\<lparr>createdAt := None\<rparr>"

text \<open>A checkout configuration and a session with one item in the cart, for the examples.\<close>

definition cfg_online :: checkout_config where
  "cfg_online = \<lparr>user = Some \<lparr>user_address = None\<rparr>, useRegisteredAddress = True,
     customAddress = \<lparr>address = ''12 MG Road'', city = ''Pune'', state = ''MH'', pincode = ''411001''\<rparr>,
     paymentMethod = ''razorpay'', razorpayKey = Some ''rzp_test_1'', razorpayLoaded = True\<rparr>"

definition session_start :: session where
  "session_start = \<lparr>cart = [\<lparr>price = 150, quantity = 2, item_id = ''p1''\<rparr>], isProcessing = False,
     route = None, notices = [], calls = [], pendings = []\<rparr>"

text \<open>The events of an online payment up to the answer of the verification service.\<close>

definition pay_online :: "bool option outcome \<Rightarrow> event list" where
  "pay_online verdict =
     [ClickProceed, GatewayOrderReturned (Resolved (Some ''order_1'')), WidgetSuccess,
      VerificationReturned verdict]"

section \<open>Properties\<close>

subsection \<open>Evaluating the rounding functions\<close>

lemma floor_rat_numeral [simp]: "\<lfloor>numeral a / numeral b :: rat\<rfloor> = numeral a div numeral b"
  using floor_divide_of_int_eq [of "numeral a" "numeral b", where ?'a = rat] by simp

lemma floor_rat_neg_numeral [simp]:
  "\<lfloor>- (numeral a / numeral b) :: rat\<rfloor> = - numeral a div numeral b"
  using floor_divide_of_int_eq [of "- numeral a" "numeral b", where ?'a = rat] by simp

lemma floor_rat_one_numeral [simp]: "\<lfloor>1 / numeral b :: rat\<rfloor> = 1 div numeral b"
  using floor_divide_of_int_eq [of 1 "numeral b", where ?'a = rat] by simp



subsection \<open>Checkout totals\<close>









subsection \<open>Line breakdown: items with stored tax fields\<close>










subsection \<open>Line breakdown: items without stored tax fields\<close>

lemma plain_breakdown:
  assumes "\<not> has_stored_gst item"
    and "r = num_or (or_else (gst item) (or_else (product_gstRate item) (product_gst item))) 18"
  shows "out_basePrice (getIndividualProductGST item)
           = toFixed 2 (price item * of_nat (quantity item) / (1 + r / 100))"
    and "out_totalGstAmount (getIndividualProductGST item)
           = toFixed 2 (price item * of_nat (quantity item)
                        - price item * of_nat (quantity item) / (1 + r / 100))"
  using assms by (simp_all add: getIndividualProductGST_def Let_def)

text \<open>
  C3: the claim's reading (a per-unit base price) is what every caller of
  \<open>getIndividualProductGST\<close> expects, and what the stored-fields tier returns. The
  fallback tier returns the base of the whole line instead: for a plain item priced 118
  the returned base price is 100 at quantity 1 but 200 at quantity 2, while the per-unit
  tax amount is 18 in both cases.
\<close>

theorem plain_base_price_is_line_total:
  "\<not> has_stored_gst (item_plain 2)
   \<and> out_basePrice (getIndividualProductGST (item_plain 2)) = 200
   \<and> out_gstAmountPerUnit (getIndividualProductGST (item_plain 2)) = 18
   \<and> out_gstRate (getIndividualProductGST (item_plain 2)) = 18
   \<and> out_basePrice (getIndividualProductGST (item_plain 1)) = 100
   \<and> out_gstAmountPerUnit (getIndividualProductGST (item_plain 1)) = 18
   \<and> (118 :: rat) / (1 + 18 / 100) = 100"
  by (simp add: item_plain_def getIndividualProductGST_def has_stored_gst_def
      defined_def Let_def num_or_def or_else_def truthy_def toFixed_def)

subsection \<open>Impossible monetary states\<close>





subsection \<open>Order breakdown from the order-level tax amount\<close>







subsection \<open>The invoice number shown on an exported invoice\<close>

lemma invoice_number_from_counter:
  "map_option inv_number (generateInvoicePDF y nr (Resolved orderData))
     = Some (case nr of Resolved f \<Rightarrow> string_of_nat y @ sor_str f [] | Rejected \<Rightarrow> [])"
  by (simp add: generateInvoicePDF_def Let_def)

text \<open>
  C9: the exported invoice is not a function of the order. The number after "Invoice #:"
  is the current year followed by the next free order number, fetched from the counter at
  export time. Exporting the same stored order before and after another order is placed
  shows 2025000124 and then 2025000125, while \<open>getInvoiceOrderNumber\<close>, which derives the
  number from the order and is never called, gives 2024000017 both times.
\<close>

theorem invoice_number_depends_on_counter:
  "map_option inv_number
      (generateInvoicePDF 2025 (Resolved (Some ''000124'')) (Resolved order_stored)) = Some ''2025000124''
   \<and> map_option inv_number
      (generateInvoicePDF 2025 (Resolved (Some ''000125'')) (Resolved order_stored)) = Some ''2025000125''
   \<and> generateInvoicePDF 2025 (Resolved (Some ''000124'')) (Resolved order_stored)
       \<noteq> generateInvoicePDF 2025 (Resolved (Some ''000125'')) (Resolved order_stored)
   \<and> getInvoiceOrderNumber year_2024 2025 order_stored = ''2024000017''"
proof -
  have y: "string_of_nat 2025 = ''2025''"
    by (simp add: string_of_nat.simps digit_char_def)
  have a: "map_option inv_number
      (generateInvoicePDF 2025 (Resolved (Some ''000124'')) (Resolved order_stored)) = Some ''2025000124''"
    by (simp add: invoice_number_from_counter y sor_str_def)
  have b: "map_option inv_number
      (generateInvoicePDF 2025 (Resolved (Some ''000125'')) (Resolved order_stored)) = Some ''2025000125''"
    by (simp add: invoice_number_from_counter y sor_str_def)
  have c: "generateInvoicePDF 2025 (Resolved (Some ''000124'')) (Resolved order_stored)
       \<noteq> generateInvoicePDF 2025 (Resolved (Some ''000125'')) (Resolved order_stored)"
  proof
    assume "generateInvoicePDF 2025 (Resolved (Some ''000124'')) (Resolved order_stored)
       = generateInvoicePDF 2025 (Resolved (Some ''000125'')) (Resolved order_stored)"
    with a b show False by simp
  qed
  have d: "getInvoiceOrderNumber year_2024 2025 order_stored = ''2024000017''"
    by (simp add: getInvoiceOrderNumber_def order_stored_def struthy_def str_val_def)
  from a b c d show ?thesis by simp
qed

subsection \<open>Invoice-number precedence\<close>

lemma struthy_Some: "struthy (Some s) = (s \<noteq> [])"
  by (simp add: struthy_def)

lemma struthy_None: "struthy None = False"
  by (simp add: struthy_def)

lemma stored_ten_characters:
  assumes "invoiceNumber orderData = Some s" and "length s = 10"
  shows "getInvoiceOrderNumber getFullYear currentYear orderData = s"
proof -
  from assms(2) have "s \<noteq> []" by auto
  with assms show ?thesis
    by (simp add: getInvoiceOrderNumber_def struthy_Some str_val_def)
qed

lemma getInvoiceOrderNumber_chain:
  "getInvoiceOrderNumber getFullYear currentYear orderData
     = deriveInvoiceNumber getFullYear currentYear orderData"
proof (cases "stored_invoice_number orderData")
  case (Some s)
  then have "invoiceNumber orderData = Some s \<and> length s = 10"
    by (auto simp: stored_invoice_number_def split: option.splits if_splits)
  then have "getInvoiceOrderNumber getFullYear currentYear orderData = s"
    by (simp add: stored_ten_characters)
  with Some show ?thesis by (simp add: deriveInvoiceNumber_def)
next
  case None
  then have n1: "\<not> (struthy (invoiceNumber orderData) \<and> length (str_val (invoiceNumber orderData)) = 10)"
    by (auto simp: stored_invoice_number_def struthy_def str_val_def split: option.splits if_splits)
  show ?thesis
  proof (cases "virtual_invoice_number orderData")
    case (Some v)
    then have "invoiceOrderNumber orderData = Some v \<and> v \<noteq> []"
      by (auto simp: virtual_invoice_number_def split: option.splits if_splits)
    then have "getInvoiceOrderNumber getFullYear currentYear orderData = v"
      by (simp add: getInvoiceOrderNumber_def n1 struthy_Some) (simp add: str_val_def)
    with None Some show ?thesis
      by (simp add: deriveInvoiceNumber_def)
  next
    case None
    note v = None
    then have n2: "\<not> struthy (invoiceOrderNumber orderData)"
      by (auto simp: virtual_invoice_number_def struthy_def split: option.splits if_splits)
    have base: "getInvoiceOrderNumber getFullYear currentYear orderData
        = (if ntruthy (orderNumber orderData) \<and> struthy (createdAt orderData) then
             string_of_nat (getFullYear (str_val (createdAt orderData)))
               @ padStart0 6 (string_of_nat (nat_val (orderNumber orderData)))
           else if struthy (formattedOrderNumber orderData) \<and> struthy (createdAt orderData) then
             string_of_nat (getFullYear (str_val (createdAt orderData)))
               @ str_val (formattedOrderNumber orderData)
           else if struthy (createdAt orderData) \<and> struthy (order_id orderData) then
             string_of_nat (getFullYear (str_val (createdAt orderData)))
               @ slice_last 6 (str_val (order_id orderData))
           else string_of_nat currentYear @ ''000001'')"
      by (simp add: getInvoiceOrderNumber_def Let_def n1 n2)
    have spec: "deriveInvoiceNumber getFullYear currentYear orderData
        = first_available
            [year_and_sequential_number getFullYear orderData,
             year_and_formatted_number getFullYear orderData,
             year_and_id_suffix getFullYear orderData]
            (string_of_nat currentYear @ ''000001'')"
      using \<open>stored_invoice_number orderData = None\<close> v by (simp add: deriveInvoiceNumber_def)
    show ?thesis
      unfolding base spec
      by (cases "orderNumber orderData"; cases "createdAt orderData";
          cases "formattedOrderNumber orderData"; cases "order_id orderData")
         (simp_all add: year_and_sequential_number_def year_and_formatted_number_def
            year_and_id_suffix_def ntruthy_def struthy_def str_val_def nat_val_def)
  qed
qed

text \<open>
  C5: \<open>getInvoiceOrderNumber\<close> follows the stated precedence. It agrees with the ranked
  chain of the specification on every order: the stored invoice number when it has exactly
  10 characters, else the virtual invoice-number field, else the year of creation followed
  by the sequential number padded to six digits, else the year followed by the formatted
  number, else the year followed by the last six characters of the order id, else the
  current year followed by 000001. In particular a stored number of exactly 10 characters
  is returned unchanged whatever else the order carries.
\<close>

theorem getInvoiceOrderNumber_precedence:
  "getInvoiceOrderNumber getFullYear currentYear orderData
     = deriveInvoiceNumber getFullYear currentYear orderData
   \<and> (\<forall>s. invoiceNumber orderData = Some s \<and> length s = 10 \<longrightarrow>
          getInvoiceOrderNumber getFullYear currentYear orderData = s)"
proof (intro conjI allI impI)
  show "getInvoiceOrderNumber getFullYear currentYear orderData
     = deriveInvoiceNumber getFullYear currentYear orderData"
    by (rule getInvoiceOrderNumber_chain)
next
  fix s
  assume "invoiceNumber orderData = Some s \<and> length s = 10"
  then show "getInvoiceOrderNumber getFullYear currentYear orderData = s"
    by (simp add: stored_ten_characters)
qed

theorem getInvoiceOrderNumber_precedence_witness:
  "invoiceNumber order_stored = Some ''2024000017'' \<and> length ''2024000017'' = 10
   \<and> orderNumber order_stored = Some 17
   \<and> getInvoiceOrderNumber year_2024 2025 order_stored = ''2024000017''
   \<and> getInvoiceOrderNumber year_2024 2025 order_long_number = ''INV-17''
   \<and> getInvoiceOrderNumber year_2024 2025 order_sequential = ''2024000017''
   \<and> getInvoiceOrderNumber year_2024 2025 order_formatted = ''2024A17''
   \<and> getInvoiceOrderNumber year_2024 2025 order_id_only = ''2024345678''
   \<and> getInvoiceOrderNumber year_2024 2025 order_bare = ''2025000001''"
proof -
  have a: "invoiceNumber order_stored = Some ''2024000017''" "orderNumber order_stored = Some 17"
    by (simp_all add: order_stored_def)
  have y: "string_of_nat 2024 = ''2024''" "string_of_nat 2025 = ''2025''"
    "string_of_nat 17 = ''17''"
    by (simp_all add: string_of_nat.simps digit_char_def)
  have pad: "padStart0 6 ''17'' = ''000017''"
    by (simp add: padStart0_def numeral_eq_Suc)
  have d: "deriveInvoiceNumber year_2024 2025 order_long_number = ''INV-17''"
    "deriveInvoiceNumber year_2024 2025 order_sequential = ''2024000017''"
    "deriveInvoiceNumber year_2024 2025 order_formatted = ''2024A17''"
    "deriveInvoiceNumber year_2024 2025 order_id_only = ''2024345678''"
    "deriveInvoiceNumber year_2024 2025 order_bare = ''2025000001''"
    by (simp_all add: deriveInvoiceNumber_def stored_invoice_number_def virtual_invoice_number_def
        year_and_sequential_number_def year_and_formatted_number_def year_and_id_suffix_def
        order_long_number_def order_sequential_def order_formatted_def order_id_only_def
        order_bare_def order_stored_def year_2024_def y pad slice_last_def)
  have s: "getInvoiceOrderNumber year_2024 2025 order_stored = ''2024000017''"
    using a getInvoiceOrderNumber_precedence
      [of year_2024 2025 order_stored, THEN conjunct2, rule_format, of "''2024000017''"]
    by simp
  show ?thesis
    using getInvoiceOrderNumber_precedence [of year_2024 2025 order_long_number]
      getInvoiceOrderNumber_precedence [of year_2024 2025 order_sequential]
      getInvoiceOrderNumber_precedence [of year_2024 2025 order_formatted]
      getInvoiceOrderNumber_precedence [of year_2024 2025 order_id_only]
      getInvoiceOrderNumber_precedence [of year_2024 2025 order_bare] a d s
    by simp
qed

subsection \<open>Amount in words\<close>

subsubsection \<open>The word table\<close>

lemma ones_value_all: "list_all (\<lambda>k. map_of word_values (ones ! k) = Some k) [1..<10]"
  by code_simp

lemma teens_value_all: "list_all (\<lambda>k. map_of word_values (teens ! k) = Some (10 + k)) [0..<10]"
  by code_simp

lemma tens_value_all: "list_all (\<lambda>k. map_of word_values (tens ! k) = Some (10 * k)) [2..<10]"
  by code_simp

lemma values_plain_all:
  "list_all (\<lambda>(w, v). w \<noteq> ''Hundred'' \<and> w \<noteq> ''Thousand'' \<and> CHR '' '' \<notin> set w) word_values"
  by code_simp

lemma ones_value:
  assumes "0 < k" and "k < 10"
  shows "map_of word_values (ones ! k) = Some k"
proof -
  have "1 \<le> k \<and> k < 10" using assms by arith
  then have "k \<in> set [1..<10]" by (simp only: set_upt atLeastLessThan_iff)
  with ones_value_all show ?thesis unfolding list_all_iff by blast
qed

lemma teens_value:
  assumes "k < 10"
  shows "map_of word_values (teens ! k) = Some (10 + k)"
proof -
  have "0 \<le> k \<and> k < 10" using assms by arith
  then have "k \<in> set [0..<10]" by (simp only: set_upt atLeastLessThan_iff)
  with teens_value_all show ?thesis unfolding list_all_iff by blast
qed

lemma tens_value:
  assumes "2 \<le> k" and "k < 10"
  shows "map_of word_values (tens ! k) = Some (10 * k)"
proof -
  have "2 \<le> k \<and> k < 10" using assms by arith
  then have "k \<in> set [2..<10]" by (simp only: set_upt atLeastLessThan_iff)
  with tens_value_all show ?thesis unfolding list_all_iff by blast
qed

lemma value_plain:
  assumes "map_of word_values w = Some v"
  shows "w \<noteq> ''Hundred''" and "w \<noteq> ''Thousand''" and "CHR '' '' \<notin> set w"
proof -
  from assms have "(w, v) \<in> set word_values" by (rule map_of_SomeD)
  with values_plain_all have "w \<noteq> ''Hundred'' \<and> w \<noteq> ''Thousand'' \<and> CHR '' '' \<notin> set w"
    unfolding list_all_iff by blast
  then show "w \<noteq> ''Hundred''" and "w \<noteq> ''Thousand''" and "CHR '' '' \<notin> set w" by simp_all
qed

subsubsection \<open>Reading the words of an amount\<close>

lemma read_value:
  assumes "map_of word_values w = Some v"
  shows "read_words t c (w # ws) = read_words t (c + v) ws"
  using assms value_plain(1,2) [OF assms] by simp

lemma read_Hundred: "read_words t c (''Hundred'' # ws) = read_words t (c * 100) ws"
  by simp

lemma read_Thousand: "read_words t c (''Thousand'' # ws) = read_words (t + c * 1000) 0 ws"
  by simp

lemma read_Nil: "read_words t c [] = Some (t + c)"
  by simp

lemmas read_keywords = read_Nil read_Hundred read_Thousand

lemma read_small:
  assumes "0 < n" and "n < 100"
  shows "read_words t c (small_words n @ rest) = read_words t (c + n) rest"
proof -
  consider "n < 10" | "10 \<le> n" "n < 20" | "20 \<le> n" "n mod 10 = 0" | "20 \<le> n" "n mod 10 \<noteq> 0"
    by linarith
  then show ?thesis
  proof cases
    case 1
    with assms show ?thesis
      by (simp add: small_words_def read_value [OF ones_value] del: read_words.simps)
  next
    case 2
    then have "map_of word_values (teens ! (n - 10)) = Some (10 + (n - 10))"
      by (intro teens_value) simp
    with 2 show ?thesis by (simp add: small_words_def read_value del: read_words.simps)
  next
    case 3
    with assms have "map_of word_values (tens ! (n div 10)) = Some (10 * (n div 10))"
      by (intro tens_value) simp_all
    moreover from 3 have "10 * (n div 10) = n" by presburger
    ultimately show ?thesis using 3 by (simp add: small_words_def read_value del: read_words.simps)
  next
    case 4
    with assms have a: "map_of word_values (tens ! (n div 10)) = Some (10 * (n div 10))"
      by (intro tens_value) simp_all
    from 4 have b: "map_of word_values (ones ! (n mod 10)) = Some (n mod 10)"
      by (intro ones_value) simp_all
    have "10 * (n div 10) + n mod 10 = n" by presburger
    then have "c + 10 * (n div 10) + n mod 10 = c + n" by simp
    then show ?thesis using 4
      by (simp add: small_words_def read_value [OF a] read_value [OF b] ac_simps
          del: read_words.simps)
  qed
qed


lemma read_hundred:
  assumes "0 < n" and "n < 1000"
  shows "read_words t 0 (hundred_words n @ rest) = read_words t n rest"
proof (cases "n < 100")
  case True
  with assms show ?thesis using read_small [of n t 0 rest] by (simp add: hundred_words_def)
next
  case False
  with assms have h: "map_of word_values (ones ! (n div 100)) = Some (n div 100)"
    by (intro ones_value) (simp_all add: div_greater_zero_iff less_mult_imp_div_less)
  have split: "n div 100 * 100 + n mod 100 = n" by simp
  show ?thesis
  proof (cases "n mod 100 = 0")
    case True
    with split have "n div 100 * 100 = n" by simp
    with False True show ?thesis
      by (simp add: hundred_words_def read_value [OF h] read_keywords del: read_words.simps)
  next
    case nz: False
    then have "read_words t (n div 100 * 100) (small_words (n mod 100) @ rest)
        = read_words t (n div 100 * 100 + n mod 100) rest"
      by (intro read_small) simp_all
    with False nz split show ?thesis
      by (simp add: hundred_words_def read_value [OF h] read_keywords del: read_words.simps)
  qed
qed

lemma read_amount:
  assumes "0 < n" and "n < 100000"
  shows "read_words 0 0 (amount_words n) = Some n"
proof (cases "n < 1000")
  case True
  with assms show ?thesis using read_hundred [of n 0 "[]"] by (simp add: amount_words_def)
next
  case False
  with assms have k: "0 < n div 1000" "n div 1000 < 100"
    by (simp_all add: div_greater_zero_iff less_mult_imp_div_less)
  have split: "n div 1000 * 1000 + n mod 1000 = n" by simp
  have th: "read_words 0 0 (small_words (n div 1000) @ ''Thousand'' # ws)
      = read_words (n div 1000 * 1000) 0 ws" for ws
    using read_small [OF k, of 0 0 "''Thousand'' # ws"]
    by (simp add: read_keywords del: read_words.simps)
  show ?thesis
  proof (cases "n mod 1000 = 0")
    case True
    with split have "n div 1000 * 1000 = n" by simp
    with False True show ?thesis by (simp add: amount_words_def th read_keywords del: read_words.simps)
  next
    case nz: False
    then have "read_words (n div 1000 * 1000) 0 (hundred_words (n mod 1000) @ [])
        = read_words (n div 1000 * 1000) (n mod 1000) []"
      by (intro read_hundred) simp_all
    with False nz split show ?thesis by (simp add: amount_words_def th read_keywords del: read_words.simps)
  qed
qed


subsubsection \<open>The returned string and its words\<close>

lemma small_words_valued:
  assumes "0 < n" and "n < 100" and "w \<in> set (small_words n)"
  shows "\<exists>v. map_of word_values w = Some v"
proof -
  consider "n < 10" | "10 \<le> n" "n < 20" | "20 \<le> n" by linarith
  then show ?thesis
  proof cases
    case 1
    with assms show ?thesis by (auto simp: small_words_def ones_value)
  next
    case 2
    then have "map_of word_values (teens ! (n - 10)) = Some (10 + (n - 10))"
      by (intro teens_value) simp
    with 2 assms show ?thesis by (auto simp: small_words_def)
  next
    case 3
    with assms have a: "map_of word_values (tens ! (n div 10)) = Some (10 * (n div 10))"
      by (intro tens_value) simp_all
    have b: "n mod 10 \<noteq> 0 \<Longrightarrow> map_of word_values (ones ! (n mod 10)) = Some (n mod 10)"
      by (intro ones_value) simp_all
    from 3 assms a b show ?thesis by (auto simp: small_words_def split: if_splits)
  qed
qed

lemma small_words_no_space:
  assumes "0 < n" and "n < 100" and "w \<in> set (small_words n)"
  shows "CHR '' '' \<notin> set w"
  using small_words_valued [OF assms] value_plain(3) by blast

lemma small_words_nonempty: "small_words n \<noteq> []"
  by (simp add: small_words_def)

lemma hundred_words_nonempty: "hundred_words n \<noteq> []"
  by (simp add: hundred_words_def small_words_nonempty)

lemma hundred_words_no_space:
  assumes "0 < n" and "n < 1000" and "w \<in> set (hundred_words n)"
  shows "CHR '' '' \<notin> set w"
proof (cases "n < 100")
  case True
  with assms show ?thesis by (simp add: hundred_words_def small_words_no_space)
next
  case False
  with assms have "map_of word_values (ones ! (n div 100)) = Some (n div 100)"
    by (intro ones_value) (simp_all add: div_greater_zero_iff less_mult_imp_div_less)
  then have h: "CHR '' '' \<notin> set (ones ! (n div 100))" by (rule value_plain(3))
  have r: "n mod 100 \<noteq> 0 \<Longrightarrow> w \<in> set (small_words (n mod 100)) \<Longrightarrow> CHR '' '' \<notin> set w"
    by (rule small_words_no_space [of "n mod 100"]) simp_all
  from False assms(3) h r show ?thesis
    by (auto simp: hundred_words_def split: if_splits)
qed

lemma amount_words_no_space:
  assumes "0 < n" and "n < 100000" and "w \<in> set (amount_words n)"
  shows "CHR '' '' \<notin> set w"
proof (cases "n < 1000")
  case True
  with assms show ?thesis by (simp add: amount_words_def hundred_words_no_space)
next
  case False
  with assms have k: "0 < n div 1000" "n div 1000 < 100"
    by (simp_all add: div_greater_zero_iff less_mult_imp_div_less)
  have r: "n mod 1000 \<noteq> 0 \<Longrightarrow> w \<in> set (hundred_words (n mod 1000)) \<Longrightarrow> CHR '' '' \<notin> set w"
    by (rule hundred_words_no_space [of "n mod 1000"]) simp_all
  from False assms(3) r small_words_no_space [OF k] show ?thesis
    by (auto simp: amount_words_def split: if_splits)
qed

lemma amount_words_nonempty: "amount_words n \<noteq> []"
  by (simp add: amount_words_def hundred_words_nonempty)

lemma join_Cons: "ws \<noteq> [] \<Longrightarrow> join_words (w # ws) = w @ '' '' @ join_words ws"
  by (cases ws) simp_all

lemma join_append:
  "xs \<noteq> [] \<Longrightarrow> ys \<noteq> [] \<Longrightarrow> join_words (xs @ ys) = join_words xs @ '' '' @ join_words ys"
proof (induction xs rule: join_words.induct)
  case 1
  then show ?case by simp
next
  case (2 w)
  then show ?case by (simp add: join_Cons)
next
  case (3 w v ws)
  then show ?case by simp
qed

lemma split_no_space: "CHR '' '' \<notin> set w \<Longrightarrow> split_words w = [w]"
  by (induction w) auto

lemma split_at_space:
  "CHR '' '' \<notin> set w \<Longrightarrow> split_words (w @ CHR '' '' # r) = w # split_words r"
  by (induction w) auto

lemma split_join:
  "ws \<noteq> [] \<Longrightarrow> \<forall>w\<in>set ws. CHR '' '' \<notin> set w \<Longrightarrow> split_words (join_words ws) = ws"
proof (induction ws rule: join_words.induct)
  case 1
  then show ?case by simp
next
  case (2 w)
  then show ?case by (simp add: split_no_space)
next
  case (3 w v ws)
  then have "split_words (join_words (v # ws)) = v # ws" by simp
  moreover from 3 have "CHR '' '' \<notin> set w" by simp
  ultimately show ?case by (simp add: split_at_space)
qed

lemma convert_small:
  assumes "0 < n" and "n < 100"
  shows "convertToWords n = join_words (small_words n)"
  using assms by (subst convertToWords.simps) (simp add: small_words_def)

lemma convert_hundred:
  assumes "0 < n" and "n < 1000"
  shows "convertToWords n = join_words (hundred_words n)"
proof (cases "n < 100")
  case True
  with assms show ?thesis by (simp add: hundred_words_def convert_small)
next
  case False
  have r: "n mod 100 \<noteq> 0 \<Longrightarrow> convertToWords (n mod 100) = join_words (small_words (n mod 100))"
    by (rule convert_small) simp_all
  from False assms r show ?thesis
    by (subst convertToWords.simps)
       (simp add: hundred_words_def join_Cons small_words_nonempty)
qed

lemma convert_amount:
  assumes "0 < n" and "n < 100000"
  shows "convertToWords n = join_words (amount_words n)"
proof (cases "n < 1000")
  case True
  with assms show ?thesis by (simp add: amount_words_def convert_hundred)
next
  case False
  with assms have k: "0 < n div 1000" "n div 1000 < 100"
    by (simp_all add: div_greater_zero_iff less_mult_imp_div_less)
  have r: "n mod 1000 \<noteq> 0 \<Longrightarrow> convertToWords (n mod 1000) = join_words (hundred_words (n mod 1000))"
    by (rule convert_hundred) simp_all
  from False assms r show ?thesis
    by (subst convertToWords.simps)
       (simp add: amount_words_def join_append join_Cons small_words_nonempty
          hundred_words_nonempty convert_small [OF k])
qed

lemma words_value_convert:
  assumes "n < 100000"
  shows "words_value (convertToWords n) = Some n"
proof (cases "n = 0")
  case True
  have "words_value (convertToWords 0) = Some 0" by code_simp
  with True show ?thesis by simp
next
  case False
  with assms have n: "0 < n" "n < 100000" by simp_all
  have "split_words (convertToWords n) = amount_words n"
    unfolding convert_amount [OF n]
    using amount_words_no_space [OF n] by (intro split_join amount_words_nonempty) blast
  then show ?thesis by (simp add: words_value_def read_amount [OF n])
qed

lemma too_large: "100000 \<le> n \<Longrightarrow> convertToWords n = ''Amount too large''"
  by (subst convertToWords.simps) simp

lemma too_large_unreadable: "words_value ''Amount too large'' = None"
  by code_simp

text \<open>
  C10: \<open>convertToWords\<close> is defined up to five digits. For every amount from 0 to
  99,999 it returns English number words that read back as the amount (and never the
  placeholder); for every amount of 100,000 or more it returns "Amount too large", so the
  invoice line reads "Amount too large Rupees Only".
\<close>

theorem convertToWords_five_digits:
  "(amount < 100000 \<longrightarrow>
      words_value (convertToWords amount) = Some amount
      \<and> convertToWords amount \<noteq> ''Amount too large'')
   \<and> (100000 \<le> amount \<longrightarrow>
      convertToWords amount = ''Amount too large''
      \<and> amount_in_words amount = ''Amount too large Rupees Only'')"
proof (intro conjI impI)
  assume a: "amount < 100000"
  then show r: "words_value (convertToWords amount) = Some amount"
    by (rule words_value_convert)
  show "convertToWords amount \<noteq> ''Amount too large''"
  proof
    assume "convertToWords amount = ''Amount too large''"
    with r too_large_unreadable show False by simp
  qed
next
  assume "100000 \<le> amount"
  then show l: "convertToWords amount = ''Amount too large''" by (rule too_large)
  then show "amount_in_words amount = ''Amount too large Rupees Only''"
    by (simp add: amount_in_words_def)
qed

theorem convertToWords_five_digits_witness:
  "convertToWords 0 = ''Zero''
   \<and> convertToWords 118 = ''One Hundred Eighteen''
   \<and> words_value (convertToWords 118) = Some 118
   \<and> words_value (convertToWords 99999) = Some 99999
   \<and> convertToWords 99999 \<noteq> ''Amount too large''
   \<and> convertToWords 100000 = ''Amount too large''
   \<and> amount_in_words 100000 = ''Amount too large Rupees Only''"
proof -
  have c: "convertToWords 0 = ''Zero''" "convertToWords 118 = ''One Hundred Eighteen''"
    by code_simp+
  show ?thesis
    using convertToWords_five_digits [of 118] convertToWords_five_digits [of 99999]
      convertToWords_five_digits [of 100000] c
    by simp
qed

subsection \<open>Checkout session: the cart and the processing flag\<close>

lemma cart_toast [simp]: "cart (toast n s) = cart s"
  by (simp add: toast_def)

lemma cart_navigate [simp]: "cart (navigate r s) = cart s"
  by (simp add: navigate_def)

lemma cart_setIsProcessing [simp]: "cart (setIsProcessing b s) = cart s"
  by (simp add: setIsProcessing_def)

lemma cart_request [simp]: "cart (request c p s) = cart s"
  by (simp add: request_def)

lemma cart_resume [simp]: "cart (resume p s) = cart s"
  by (simp add: resume_def)

lemma cart_CLEAR_CART [simp]: "cart (dispatch_CLEAR_CART s) = []"
  by (simp add: dispatch_CLEAR_CART_def)

lemma cart_handleProceedToPayment: "cart (handleProceedToPayment cfg s) = cart s"
  by (simp add: handleProceedToPayment_def Let_def split: option.splits)

lemma cart_proceed_click: "cart (proceed_click cfg s) = cart s"
  by (simp add: proceed_click_def cart_handleProceedToPayment)

lemma cart_after_createRazorpayOrder: "cart (after_createRazorpayOrder cfg r s) = cart s"
  by (simp add: after_createRazorpayOrder_def split: outcome.splits)

lemma cart_handler_resume:
  "cart (handler_resume r s) = (if r = Resolved (Some True) then [] else cart s)"
  by (simp add: handler_resume_def split: outcome.splits option.splits bool.splits)

lemma cart_handleCODOrder_resume:
  "cart (handleCODOrder_resume r s)
     = (if (case r of Resolved i \<Rightarrow> struthy i | Rejected \<Rightarrow> False) then [] else cart s)"
  by (simp add: handleCODOrder_resume_def split: outcome.splits)

lemma settled_state:
  assumes "settles e s"
  shows "cart (step cfg e s) = []"
    and "route (step cfg e s) = Some ''/orders''"
    and "isProcessing (step cfg e s) = False"
  using assms
  by (auto simp: settles_def confirms_def step_def handler_resume_def handleCODOrder_resume_def
      setIsProcessing_def navigate_def dispatch_CLEAR_CART_def toast_def resume_def
      split: event.splits outcome.splits)

lemma unsettled_cart:
  assumes "\<not> settles e s"
  shows "cart (step cfg e s) = cart s"
proof (cases e)
  case ClickProceed
  then show ?thesis by (simp add: step_def cart_proceed_click)
next
  case (GatewayOrderReturned r)
  then show ?thesis by (simp add: step_def cart_after_createRazorpayOrder)
next
  case WidgetSuccess
  then show ?thesis by (simp add: step_def handler_start_def)
next
  case WidgetDismiss
  then show ?thesis by (simp add: step_def ondismiss_def)
next
  case (WidgetPaymentFailed d)
  then show ?thesis by (simp add: step_def on_payment_failed_def)
next
  case (VerificationReturned r)
  with assms show ?thesis
    by (auto simp: step_def settles_def confirms_def cart_handler_resume)
next
  case (CodOrderReturned r)
  with assms show ?thesis
    by (auto simp: step_def settles_def confirms_def cart_handleCODOrder_resume)
qed

lemma run_Nil [simp]: "run cfg [] s = s"
  by (simp add: run_def)

lemma run_Cons [simp]: "run cfg (e # es) s = run cfg es (step cfg e s)"
  by (simp add: run_def)

lemma run_cart:
  "cart (run cfg es s) = cart s \<or> (cart (run cfg es s) = [] \<and> (\<exists>e\<in>set es. confirms e))"
proof (induction es arbitrary: s)
  case Nil
  then show ?case by simp
next
  case (Cons e es)
  show ?case
  proof (cases "settles e s")
    case True
    then have c: "confirms e" by (simp add: settles_def)
    from True have "cart (step cfg e s) = []" by (rule settled_state)
    with Cons.IH [of "step cfg e s"] c show ?thesis by auto
  next
    case False
    then have "cart (step cfg e s) = cart s" by (rule unsettled_cart)
    with Cons.IH [of "step cfg e s"] show ?thesis by auto
  qed
qed

text \<open>
  C1: the cart is cleared only on confirmed settlement. An event that settles the checkout
  (the verification service answering with success, or the cash-on-delivery order coming
  back with an id, while the handler awaits it) empties the cart, navigates to the orders
  page and clears the processing flag; every other event, whatever the gateway, the widget
  or the verification service answers, leaves the cart as it was. Hence a non-empty cart is
  empty after an event exactly when the event settles, and along any sequence of events the
  cart changes only by being emptied after a confirmation.
\<close>

theorem cart_cleared_only_on_settlement:
  "(settles e s \<longrightarrow>
      cart (step cfg e s) = [] \<and> route (step cfg e s) = Some ''/orders''
      \<and> isProcessing (step cfg e s) = False)
   \<and> (\<not> settles e s \<longrightarrow> cart (step cfg e s) = cart s)
   \<and> (cart s \<noteq> [] \<longrightarrow> (cart (step cfg e s) = []) = settles e s)
   \<and> (cart (run cfg es s) \<noteq> cart s \<longrightarrow>
        cart (run cfg es s) = [] \<and> (\<exists>e\<in>set es. confirms e))"
proof (intro conjI impI)
  assume "settles e s"
  then show "cart (step cfg e s) = []" and "route (step cfg e s) = Some ''/orders''"
    and "isProcessing (step cfg e s) = False"
    by (rule settled_state)+
next
  assume "\<not> settles e s"
  then show "cart (step cfg e s) = cart s" by (rule unsettled_cart)
next
  assume nonempty: "cart s \<noteq> []"
  show "(cart (step cfg e s) = []) = settles e s"
  proof (cases "settles e s")
    case True
    then show ?thesis by (simp add: settled_state(1))
  next
    case False
    with nonempty show ?thesis by (simp add: unsettled_cart)
  qed
next
  assume "cart (run cfg es s) \<noteq> cart s"
  then show "cart (run cfg es s) = []" and "\<exists>e\<in>set es. confirms e"
    using run_cart [of cfg es s] by auto
qed

theorem cart_cleared_only_on_settlement_witness:
  "cart session_start \<noteq> []
   \<and> cart (run cfg_online (pay_online (Resolved (Some True))) session_start) = []
   \<and> route (run cfg_online (pay_online (Resolved (Some True))) session_start) = Some ''/orders''
   \<and> cart (run cfg_online (pay_online (Resolved (Some False))) session_start) = cart session_start
   \<and> cart (run cfg_online (pay_online (Resolved None)) session_start) = cart session_start
   \<and> cart (run cfg_online (pay_online Rejected) session_start) = cart session_start
   \<and> (\<exists>e\<in>set (pay_online (Resolved (Some True))). confirms e)"
proof -
  define s3 where "s3 = run cfg_online
      [ClickProceed, GatewayOrderReturned (Resolved (Some ''order_1'')), WidgetSuccess] session_start"
  have p: "pendings s3 = [AwaitVerification]" and c: "cart s3 = cart session_start"
    and n: "cart session_start \<noteq> []"
    unfolding s3_def by code_simp+
  have r: "run cfg_online (pay_online v) session_start = step cfg_online (VerificationReturned v) s3" for v
    by (simp add: pay_online_def s3_def)
  have yes: "settles (VerificationReturned (Resolved (Some True))) s3"
    by (simp add: settles_def confirms_def p)
  have no: "\<not> settles (VerificationReturned (Resolved (Some False))) s3"
    "\<not> settles (VerificationReturned (Resolved None)) s3"
    "\<not> settles (VerificationReturned Rejected) s3"
    by (simp_all add: settles_def confirms_def)
  show ?thesis
    using cart_cleared_only_on_settlement
        [of "VerificationReturned (Resolved (Some True))" s3 cfg_online "[]"]
      cart_cleared_only_on_settlement
        [of "VerificationReturned (Resolved (Some False))" s3 cfg_online "[]"]
      cart_cleared_only_on_settlement
        [of "VerificationReturned (Resolved None)" s3 cfg_online "[]"]
      cart_cleared_only_on_settlement
        [of "VerificationReturned Rejected" s3 cfg_online "[]"]
      cart_cleared_only_on_settlement
        [of ClickProceed session_start cfg_online "pay_online (Resolved (Some True))"]
      yes no c n
    by (simp add: r)
qed

subsection \<open>Checkout session: overlapping clicks on the proceed button\<close>

lemma click_while_processing:
  assumes "isProcessing s"
  shows "step cfg ClickProceed s = s"
  using assms by (simp add: step_def proceed_click_def)

lemma clicks_while_processing:
  assumes "isProcessing s"
  shows "run cfg (replicate n ClickProceed) s = s"
  using assms by (induction n) (simp_all add: click_while_processing)

lemma gateway_orders_request:
  "gateway_orders (request c p s)
     = gateway_orders s + (case c of CreateRazorpayOrder _ \<Rightarrow> 1 | _ \<Rightarrow> 0)"
  by (simp add: gateway_orders_def request_def split: call.splits)

lemma gateway_orders_setIsProcessing [simp]:
  "gateway_orders (setIsProcessing b s) = gateway_orders s"
  by (simp add: gateway_orders_def setIsProcessing_def)

lemma first_click:
  assumes "reaches_gateway cfg s"
  shows "isProcessing (step cfg ClickProceed s)"
    and "gateway_orders (step cfg ClickProceed s) = gateway_orders s + 1"
    and "pendings (step cfg ClickProceed s) = pendings s @ [AwaitGatewayOrder]"
proof -
  from assms obtain u where u: "user cfg = Some u"
    by (auto simp: reaches_gateway_def defined_def split: option.splits)
  from assms have v: "validateAddress_error cfg = None"
    by (simp add: reaches_gateway_def validateAddress_def)
  from assms have rest: "cart s \<noteq> []" "\<not> isProcessing s" "paymentMethod cfg = ''razorpay''"
    "valid_razorpayKey (razorpayKey cfg)"
    by (simp_all add: reaches_gateway_def)
  have eq: "step cfg ClickProceed s
      = request (CreateRazorpayOrder (ct_total (checkout_totals (cart s)))) AwaitGatewayOrder
          (setIsProcessing True s)"
    using u v rest by (simp add: step_def proceed_click_def handleProceedToPayment_def Let_def)
  show "isProcessing (step cfg ClickProceed s)"
    unfolding eq by (simp add: request_def setIsProcessing_def)
  show "gateway_orders (step cfg ClickProceed s) = gateway_orders s + 1"
    unfolding eq by (simp add: gateway_orders_request)
  show "pendings (step cfg ClickProceed s) = pendings s @ [AwaitGatewayOrder]"
    unfolding eq by (simp add: request_def setIsProcessing_def)
qed

text \<open>
  The guard is the button's: \<open>handleProceedToPayment\<close> itself does not read the flag, and
  called with the flag set it requests a gateway order all the same.
\<close>

lemma handler_reads_no_flag:
  assumes "defined (user cfg)" and "validateAddress cfg" and "paymentMethod cfg = ''razorpay''"
    and "valid_razorpayKey (razorpayKey cfg)"
  shows "gateway_orders (handleProceedToPayment cfg s) = gateway_orders s + 1"
proof -
  from assms(1) obtain u where u: "user cfg = Some u"
    by (auto simp: defined_def split: option.splits)
  from assms(2) have v: "validateAddress_error cfg = None" by (simp add: validateAddress_def)
  show ?thesis
    using u v assms(3,4) by (simp add: handleProceedToPayment_def Let_def gateway_orders_request)
qed

text \<open>
  C7: while the processing flag is set, a click on the proceed button is ignored at entry:
  the session is left as it is, so no request is sent. Hence when a click reaches the
  gateway, any number of further clicks before its completion leave exactly one gateway
  order requested and one request pending.
\<close>

theorem overlapping_clicks_one_gateway_order:
  "(isProcessing s \<longrightarrow> step cfg ClickProceed s = s)
   \<and> (reaches_gateway cfg s \<longrightarrow>
        gateway_orders (run cfg (ClickProceed # replicate n ClickProceed) s) = gateway_orders s + 1
        \<and> pendings (run cfg (ClickProceed # replicate n ClickProceed) s)
            = pendings s @ [AwaitGatewayOrder]
        \<and> isProcessing (run cfg (ClickProceed # replicate n ClickProceed) s))"
proof (intro conjI impI)
  assume "isProcessing s"
  then show "step cfg ClickProceed s = s" by (rule click_while_processing)
next
  assume r: "reaches_gateway cfg s"
  then have "isProcessing (step cfg ClickProceed s)" by (rule first_click)
  then have same: "run cfg (ClickProceed # replicate n ClickProceed) s = step cfg ClickProceed s"
    by (simp add: clicks_while_processing)
  from r show "gateway_orders (run cfg (ClickProceed # replicate n ClickProceed) s) = gateway_orders s + 1"
    unfolding same by (rule first_click)
  from r show "pendings (run cfg (ClickProceed # replicate n ClickProceed) s)
            = pendings s @ [AwaitGatewayOrder]"
    unfolding same by (rule first_click)
  from r show "isProcessing (run cfg (ClickProceed # replicate n ClickProceed) s)"
    unfolding same by (rule first_click)
qed

theorem overlapping_clicks_one_gateway_order_witness:
  "reaches_gateway cfg_online session_start
   \<and> gateway_orders session_start = 0
   \<and> isProcessing (step cfg_online ClickProceed session_start)
   \<and> step cfg_online ClickProceed (step cfg_online ClickProceed session_start)
       = step cfg_online ClickProceed session_start
   \<and> gateway_orders (run cfg_online [ClickProceed, ClickProceed] session_start) = 1
   \<and> calls (run cfg_online [ClickProceed, ClickProceed] session_start) = [CreateRazorpayOrder 365]
   \<and> pendings (run cfg_online [ClickProceed, ClickProceed] session_start) = [AwaitGatewayOrder]"
proof -
  have a: "reaches_gateway cfg_online session_start" "gateway_orders session_start = 0"
    "pendings session_start = []"
    "calls (run cfg_online [ClickProceed, ClickProceed] session_start) = [CreateRazorpayOrder 365]"
    "isProcessing (step cfg_online ClickProceed session_start)"
    by code_simp+
  show ?thesis
    using overlapping_clicks_one_gateway_order [of session_start cfg_online 1]
      overlapping_clicks_one_gateway_order
        [of "step cfg_online ClickProceed session_start" cfg_online 0] a
    by simp
qed

end
